theory Spec2Isabelle
  imports Complex_Main "HOL-Library.AList"
begin

section \<open>Data model of \<open>VehicleSpeedDetector\<close> (video_processor.py)\<close>

text \<open>
  Centroids are pairs of Python integers. Distances, timestamps, speeds and confidences are
  Python floats in the source; they are modelled as real numbers, so every statement below
  is about exact arithmetic. A Python \<open>dict\<close> is an association list with distinct keys in
  insertion order: assigning to a present key keeps its place, assigning to a new key
  appends it, which is what \<open>AList.update\<close> does; \<open>del\<close> is \<open>AList.delete\<close>.
\<close>

type_synonym pos = "int \<times> int"
type_synonym quad = "(int \<times> int) list"
type_synonym ('k, 'v) dict = "('k \<times> 'v) list"

datatype py_error = ZeroDivisionError | TypeError | EngineError

text \<open>
  One entry of a track's history. The keys \<open>'license_plate'\<close>, \<open>'license_plate_bbox'\<close> and
  \<open>'license_plate_confidence'\<close> exist only on samples where recognition stored a plate:
  absence of the key is \<open>None\<close>.
\<close>

record sample =
  position :: pos
  frame :: int
  timestamp :: real
  license_plate :: "string option"
  license_plate_bbox :: "quad option"
  license_plate_confidence :: "real option"

record detector =
  vehicle_tracks :: "(int, sample list) dict"
  vehicle_speeds :: "(int, real) dict"
  next_vehicle_id :: int
  inactive_tracks :: "(int, pos) dict"
  track_last_seen :: "(int, int) dict"
  pixels_per_meter :: real

definition track_max_age :: int where
  "track_max_age = 30"

definition speed_limit :: real where
  "speed_limit = 80"

text \<open>The state built by \<open>__init__\<close>.\<close>

definition init_detector :: detector where
  "init_detector = \<lparr>vehicle_tracks = [], vehicle_speeds = [], next_vehicle_id = 1,
     inactive_tracks = [], track_last_seen = [], pixels_per_meter = 8\<rparr>"

text \<open>\<open>self.vehicle_tracks\<close> is a \<open>defaultdict(list)\<close>: reading a missing key gives \<open>[]\<close>.\<close>

definition track_of :: "detector \<Rightarrow> int \<Rightarrow> sample list" where
  "track_of st vid = (case map_of (vehicle_tracks st) vid of None \<Rightarrow> [] | Some t \<Rightarrow> t)"

section \<open>Identity resolver\<close>

definition calculate_distance :: "pos \<Rightarrow> pos \<Rightarrow> real" where
  "calculate_distance pos1 pos2 =
     sqrt (real_of_int ((fst pos1 - fst pos2)\<^sup>2 + (snd pos1 - snd pos2)\<^sup>2))"

text \<open>\<open>min_distance\<close> starts as \<open>float('inf')\<close>, written \<open>None\<close>.\<close>

fun below_min :: "real \<Rightarrow> real option \<Rightarrow> bool" where
  "below_min d None = True"
| "below_min d (Some m) = (d < m)"

text \<open>
  The loop over \<open>self.vehicle_tracks.items()\<close> (lines 114-123). Its state is
  \<open>(min_distance, assigned_id, track_last_seen)\<close>: the write to \<open>track_last_seen\<close> is inside
  the loop body, so it happens at every track that improves the running minimum.
\<close>

fun scan_active ::
  "pos \<Rightarrow> int \<Rightarrow> real \<Rightarrow> (int, sample list) dict \<Rightarrow>
   real option \<times> int option \<times> (int, int) dict \<Rightarrow> real option \<times> int option \<times> (int, int) dict" where
  "scan_active current_pos frame_number max_distance [] acc = acc"
| "scan_active current_pos frame_number max_distance ((vehicle_id, positions) # rest) (md, aid, tls) =
     (if positions \<noteq> [] then
        (let distance = calculate_distance current_pos (position (last positions)) in
         if distance < max_distance \<and> below_min distance md
         then scan_active current_pos frame_number max_distance rest
                (Some distance, Some vehicle_id, AList.update vehicle_id frame_number tls)
         else scan_active current_pos frame_number max_distance rest (md, aid, tls))
      else scan_active current_pos frame_number max_distance rest (md, aid, tls))"

text \<open>
  The loop over a snapshot of the keys of \<open>self.inactive_tracks\<close> (lines 128-139). Each
  iteration deletes at most its own key and the keys of a dict are distinct, so the value
  read by \<open>self.inactive_tracks[vehicle_id]\<close> is the one of the snapshot; the model walks the
  snapshot of the items. The deletion is inside the loop body as well.
\<close>

fun scan_inactive ::
  "pos \<Rightarrow> int \<Rightarrow> real \<Rightarrow> (int, pos) dict \<Rightarrow>
   real option \<times> int option \<times> (int, int) dict \<times> (int, pos) dict \<Rightarrow>
   real option \<times> int option \<times> (int, int) dict \<times> (int, pos) dict" where
  "scan_inactive current_pos frame_number max_distance [] acc = acc"
| "scan_inactive current_pos frame_number max_distance ((vehicle_id, last_pos) # rest) (md, aid, tls, inact) =
     (let distance = calculate_distance current_pos last_pos in
      if distance < max_distance \<and> below_min distance md
      then scan_inactive current_pos frame_number max_distance rest
             (Some distance, Some vehicle_id, AList.update vehicle_id frame_number tls,
              AList.delete vehicle_id inact)
      else scan_inactive current_pos frame_number max_distance rest (md, aid, tls, inact))"

definition assign_vehicle_id :: "detector \<Rightarrow> int \<Rightarrow> int \<Rightarrow> int \<Rightarrow> real \<Rightarrow> int \<times> detector" where
  "assign_vehicle_id st center_x center_y frame_number max_distance =
     (let current_pos = (center_x, center_y) in
      case scan_active current_pos frame_number max_distance (vehicle_tracks st)
             (None, None, track_last_seen st) of
        (md, Some v, tls) \<Rightarrow> (v, st\<lparr>track_last_seen := tls\<rparr>)
      | (md, None, tls) \<Rightarrow>
          (case scan_inactive current_pos frame_number max_distance (inactive_tracks st)
                  (md, None, tls, inactive_tracks st) of
             (md', Some v, tls', inact') \<Rightarrow>
               (v, st\<lparr>track_last_seen := tls', inactive_tracks := inact'\<rparr>)
           | (md', None, tls', inact') \<Rightarrow>
               (next_vehicle_id st,
                st\<lparr>track_last_seen := AList.update (next_vehicle_id st) frame_number tls',
                   inactive_tracks := inact',
                   next_vehicle_id := next_vehicle_id st + 1\<rparr>)))"

section \<open>Aging step of the frame loop\<close>

text \<open>
  Lines 286-297 of \<open>process_video\<close>: a loop over a snapshot of the keys of
  \<open>self.track_last_seen\<close>. \<open>self.track_last_seen.get(vehicle_id, 0)\<close> reads the current dict.
  Nothing in the body touches \<open>self.vehicle_tracks\<close>.
\<close>

definition age_one :: "int \<Rightarrow> int \<Rightarrow> detector \<Rightarrow> detector" where
  "age_one frame_count vehicle_id st =
     (if frame_count - (case map_of (track_last_seen st) vehicle_id of None \<Rightarrow> 0 | Some f \<Rightarrow> f)
           > track_max_age
      then (case map_of (vehicle_tracks st) vehicle_id of
              None \<Rightarrow> st
            | Some positions \<Rightarrow>
                if positions \<noteq> [] then
                  st\<lparr>inactive_tracks :=
                       AList.update vehicle_id (position (last positions)) (inactive_tracks st),
                     track_last_seen := AList.delete vehicle_id (track_last_seen st)\<rparr>
                else st)
      else st)"

definition age_tracks :: "int \<Rightarrow> detector \<Rightarrow> detector" where
  "age_tracks frame_count st =
     fold (age_one frame_count) (map fst (track_last_seen st)) st"

section \<open>Speed estimator\<close>

text \<open>Lines 159-160: only the 15 most recent entries of the history are kept.\<close>

definition keep_recent :: "sample list \<Rightarrow> sample list" where
  "keep_recent t = (if length t > 15 then drop (length t - 15) t else t)"

text \<open>
  The body of the loop of lines 170-191 for one pair of consecutive entries: \<open>None\<close> when
  nothing is appended to \<open>speeds\<close>. Where \<open>pixels_per_meter\<close> is 0 the source computes an
  infinite speed, which the bound 200 rejects; here the quotient is 0, which the bound 0
  rejects.
\<close>

definition interval_speed :: "real \<Rightarrow> sample \<Rightarrow> sample \<Rightarrow> real option" where
  "interval_speed ppm s1 s2 =
     (let distance_pixels = calculate_distance (position s1) (position s2);
          time_diff = timestamp s2 - timestamp s1 in
      if time_diff > 0 \<and> distance_pixels > 1 then
        (let distance_meters = distance_pixels / ppm;
             speed_ms = distance_meters / time_diff;
             speed_kmh = speed_ms * 3.6 * 1.2 in
         if 0 < speed_kmh \<and> speed_kmh < 200 then Some speed_kmh else None)
      else None)"

text \<open>\<open>track[-i-1]\<close> and \<open>track[-i]\<close> for \<open>i\<close> in \<open>range(1, min(len(track), 6))\<close>.\<close>

definition interval_speeds :: "real \<Rightarrow> sample list \<Rightarrow> real list" where
  "interval_speeds ppm track =
     List.map_filter
       (\<lambda>i. interval_speed ppm (track ! (length track - i - 1)) (track ! (length track - i)))
       [1..<min (length track) 6]"

definition mean :: "real list \<Rightarrow> real" where
  "mean xs = sum_list xs / real (length xs)"

definition new_sample :: "pos \<Rightarrow> int \<Rightarrow> int \<Rightarrow> sample" where
  "new_sample current_pos frame_number fps =
     \<lparr>position = current_pos, frame = frame_number,
      timestamp = real_of_int frame_number / real_of_int fps,
      license_plate = None, license_plate_bbox = None, license_plate_confidence = None\<rparr>"

text \<open>
  \<open>frame_number / fps\<close> is evaluated while the new entry is built, before anything is
  stored: with \<open>fps = 0\<close> the call raises and leaves the state as it was.
\<close>

definition calculate_speed ::
  "detector \<Rightarrow> int \<Rightarrow> pos \<Rightarrow> int \<Rightarrow> int \<Rightarrow> py_error + (real \<times> detector)" where
  "calculate_speed st vehicle_id current_pos frame_number fps =
     (if fps = 0 then Inl ZeroDivisionError
      else
        (let track = keep_recent (track_of st vehicle_id @ [new_sample current_pos frame_number fps]);
             st1 = st\<lparr>vehicle_tracks := AList.update vehicle_id track (vehicle_tracks st)\<rparr> in
         if length track < 3 then Inr (0, st1)
         else
           (let speeds = interval_speeds (pixels_per_meter st1) track in
            if speeds \<noteq> [] then
              (let new_speed = mean speeds in
               case map_of (vehicle_speeds st1) vehicle_id of
                 Some previous \<Rightarrow>
                   (let alpha = 0.3;
                        smoothed_speed = (1 - alpha) * previous + alpha * new_speed in
                    Inr (smoothed_speed,
                         st1\<lparr>vehicle_speeds :=
                               AList.update vehicle_id smoothed_speed (vehicle_speeds st1)\<rparr>))
               | None \<Rightarrow>
                   Inr (new_speed,
                        st1\<lparr>vehicle_speeds :=
                              AList.update vehicle_id new_speed (vehicle_speeds st1)\<rparr>))
            else
              Inr (case map_of (vehicle_speeds st1) vehicle_id of None \<Rightarrow> 0 | Some v \<Rightarrow> v,
                   st1))))"

section \<open>Plate recognition\<close>

text \<open>
  A crop is a numpy array: its shape and an identifier standing for its pixels. The
  recognition engine and the OpenCV preprocessing are outside the repository: they are
  functions of the crop that either return or raise. Characters are bytes here, and the
  three character tests are those of Python on ASCII.
\<close>

record crop =
  shape0 :: nat
  shape1 :: nat
  channels :: nat
  pixels :: nat

definition crop_size :: "crop \<Rightarrow> nat" where
  "crop_size c = shape0 c * shape1 c * channels c"

type_synonym ocr_result = "quad \<times> string \<times> real"

record engine =
  preprocess :: "crop \<Rightarrow> py_error option"
  readtext_enhanced :: "crop \<Rightarrow> py_error + ocr_result list"
  readtext_thresh :: "crop \<Rightarrow> py_error + ocr_result list"
  readtext_crop :: "crop \<Rightarrow> py_error + ocr_result list"

definition isdigit :: "char \<Rightarrow> bool" where
  "isdigit c = (48 \<le> (of_char c :: nat) \<and> (of_char c :: nat) \<le> 57)"

definition isalpha :: "char \<Rightarrow> bool" where
  "isalpha c = ((65 \<le> (of_char c :: nat) \<and> (of_char c :: nat) \<le> 90) \<or>
                (97 \<le> (of_char c :: nat) \<and> (of_char c :: nat) \<le> 122))"

definition isalnum :: "char \<Rightarrow> bool" where
  "isalnum c = (isalpha c \<or> isdigit c)"

definition clean_text :: "string \<Rightarrow> string" where
  "clean_text text = filter isalnum text"

definition plate_like :: "string \<Rightarrow> bool" where
  "plate_like cleaned_text =
     (length cleaned_text \<ge> 4 \<and> list_ex isdigit cleaned_text \<and> list_ex isalpha cleaned_text)"

text \<open>The loop of lines 84-90: the entries appended to \<open>license_plates\<close>, in order.\<close>

definition candidate :: "ocr_result \<Rightarrow> (string \<times> real \<times> quad) option" where
  "candidate r =
     (case r of (bbox, text, conf) \<Rightarrow>
        if conf > 0.4 then
          (let cleaned_text = clean_text text in
           if plate_like cleaned_text then Some (cleaned_text, conf, bbox) else None)
        else None)"

definition collect_plates :: "ocr_result list \<Rightarrow> (string \<times> real \<times> quad) list" where
  "collect_plates all_results = List.map_filter candidate all_results"

text \<open>
  \<open>license_plates.sort(key=lambda x: x[1], reverse=True)\<close> is a stable sort by descending
  confidence; \<open>sort_key\<close> is stable, on the negated confidence.
\<close>

definition sort_plates :: "(string \<times> real \<times> quad) list \<Rightarrow> (string \<times> real \<times> quad) list" where
  "sort_plates license_plates = sort_key (\<lambda>x. - fst (snd x)) license_plates"

text \<open>
  The function returns a bare \<open>None\<close> for an invalid crop and the pair \<open>(None, None)\<close>
  otherwise when there is no plate; the two are different values to a caller that unpacks.
\<close>

datatype lp_result = BareNone | Pair "string option" "quad option"

definition select_plate :: "ocr_result list \<Rightarrow> lp_result" where
  "select_plate all_results =
     (case sort_plates (collect_plates all_results) of
        [] \<Rightarrow> Pair None None
      | p # _ \<Rightarrow> Pair (Some (fst p)) (Some (snd (snd p))))"

text \<open>The body of the \<open>try\<close>: \<open>Inl\<close> is an exception raised inside it.\<close>

definition detect_try :: "engine \<Rightarrow> crop option \<Rightarrow> py_error + lp_result" where
  "detect_try eng vehicle_crop =
     (case vehicle_crop of
        None \<Rightarrow> Inr BareNone
      | Some c \<Rightarrow>
          if crop_size c = 0 \<or> shape0 c = 0 \<or> shape1 c = 0 then Inr BareNone
          else
            (case preprocess eng c of
               Some e \<Rightarrow> Inl e
             | None \<Rightarrow>
                 (case readtext_enhanced eng c of
                    Inl e \<Rightarrow> Inl e
                  | Inr results1 \<Rightarrow>
                      (case readtext_thresh eng c of
                         Inl e \<Rightarrow> Inl e
                       | Inr results2 \<Rightarrow> Inr (select_plate (results1 @ results2))))))"

definition detect_license_plate :: "engine \<Rightarrow> crop option \<Rightarrow> lp_result" where
  "detect_license_plate eng vehicle_crop =
     (case detect_try eng vehicle_crop of
        Inl e \<Rightarrow> Pair None None
      | Inr r \<Rightarrow> r)"

section \<open>The per-detection step and the frame loop of \<open>process_video\<close>\<close>

type_synonym bbox = "int \<times> int \<times> int \<times> int"

text \<open>A box of the detector, and an entry of \<open>current_detections\<close>.\<close>

record box =
  cls :: int
  xyxy :: bbox
  conf :: real

record detection =
  det_bbox :: bbox
  det_center :: pos
  det_confidence :: real
  det_class_id :: int

text \<open>A frame: the detector's boxes on it, and the slice \<open>frame[y1:y2, x1:x2]\<close>.\<close>

record video_frame =
  boxes :: "box list"
  crop_at :: "bbox \<Rightarrow> crop"

definition vehicle_classes :: "int list" where
  "vehicle_classes = [2, 3, 5, 7]"

definition get_class_name :: "int \<Rightarrow> string" where
  "get_class_name class_id =
     (if class_id = 2 then ''car'' else if class_id = 3 then ''motorcycle''
      else if class_id = 5 then ''bus'' else if class_id = 7 then ''truck'' else ''unknown'')"

definition to_detection :: "box \<Rightarrow> detection option" where
  "to_detection b =
     (if cls b \<in> set vehicle_classes then
        (case xyxy b of (x1, y1, x2, y2) \<Rightarrow>
           if conf b > 0.5 then
             Some \<lparr>det_bbox = (x1, y1, x2, y2), det_center = ((x1 + x2) div 2, (y1 + y2) div 2),
                   det_confidence = conf b, det_class_id = cls b\<rparr>
           else None)
      else None)"

text \<open>\<open>round(x, 2)\<close>, to the nearest hundredth with ties to even.\<close>

definition round2 :: "real \<Rightarrow> real" where
  "round2 x =
     (let y = x * 100; f = \<lfloor>y\<rfloor> in
      real_of_int (if y - real_of_int f < 1 / 2 then f
                   else if y - real_of_int f > 1 / 2 then f + 1
                   else if even f then f else f + 1) / 100)"

record detection_record =
  rec_frame_number :: int
  rec_vehicle_id :: int
  rec_speed :: real
  rec_license_plate :: string
  rec_license_plate_confidence :: real
  rec_is_overspeed :: bool
  rec_bbox :: bbox
  rec_confidence :: real
  rec_vehicle_class :: string
  rec_timestamp :: real

text \<open>What is drawn on the frame for one detection, in drawing order.\<close>

datatype draw_op =
    Rectangle bbox bool
  | IdText int
  | SpeedText real bool
  | PlateText string
  | PlateBox bbox

record run_state =
  tracker :: detector
  detection_data :: "detection_record list"
  drawn :: "draw_op list"
  frame_count :: int

text \<open>Truth value of \<open>license_plate\<close>: neither \<open>None\<close> nor the empty string.\<close>

fun truthy :: "string option \<Rightarrow> bool" where
  "truthy None = False"
| "truthy (Some s) = (s \<noteq> [])"

text \<open>
  Lines 327-338: the confidence of the first raw reading of the crop whose cleaned text is the
  plate; 0.0 when there is none or when the engine raises.
\<close>

definition plate_confidence :: "engine \<Rightarrow> crop \<Rightarrow> string \<Rightarrow> real" where
  "plate_confidence eng c plate =
     (case readtext_crop eng c of
        Inl e \<Rightarrow> 0
      | Inr results1 \<Rightarrow>
          (case find (\<lambda>r. clean_text (fst (snd r)) = plate) results1 of
             None \<Rightarrow> 0
           | Some r \<Rightarrow> snd (snd r)))"

text \<open>Lines 340-342: the three keys are written on the last entry of the history.\<close>

definition store_plate :: "string \<Rightarrow> quad option \<Rightarrow> real \<Rightarrow> sample list \<Rightarrow> sample list" where
  "store_plate plate plate_bbox plate_conf track =
     butlast track @
       [(last track)\<lparr>license_plate := Some plate, license_plate_bbox := plate_bbox,
                     license_plate_confidence := Some plate_conf\<rparr>]"

text \<open>Lines 345-350: the newest entry of the history that carries a plate.\<close>

definition cached_plate :: "sample list \<Rightarrow> string option \<times> quad option" where
  "cached_plate track =
     (case find (\<lambda>s. truthy (license_plate s)) (rev track) of
        None \<Rightarrow> (None, None)
      | Some s \<Rightarrow> (license_plate s, license_plate_bbox s))"

text \<open>
  Lines 316-350. A bare \<open>None\<close> from \<open>detect_license_plate\<close> cannot be unpacked into two
  names: \<open>TypeError\<close>.
\<close>

definition plate_step ::
  "engine \<Rightarrow> detector \<Rightarrow> int \<Rightarrow> real \<Rightarrow> int \<Rightarrow> crop \<Rightarrow>
   py_error + ((string option \<times> quad option) \<times> detector)" where
  "plate_step eng st vehicle_id speed frame_number vehicle_crop =
     (let ocr_frequency = (if speed < 40 then 5 else 10 :: int) in
      if frame_number mod ocr_frequency = 0 \<and> crop_size vehicle_crop > 0 then
        (case detect_license_plate eng (Some vehicle_crop) of
           BareNone \<Rightarrow> Inl TypeError
         | Pair lp lp_bbox \<Rightarrow>
             (case (lp, map_of (vehicle_tracks st) vehicle_id) of
                (Some plate, Some track) \<Rightarrow>
                  if plate \<noteq> [] \<and> track \<noteq> [] then
                    Inr ((lp, lp_bbox),
                         st\<lparr>vehicle_tracks :=
                              AList.update vehicle_id
                                (store_plate plate lp_bbox
                                   (plate_confidence eng vehicle_crop plate) track)
                                (vehicle_tracks st)\<rparr>)
                  else Inr ((lp, lp_bbox), st)
              | _ \<Rightarrow> Inr ((lp, lp_bbox), st)))
      else
        (case map_of (vehicle_tracks st) vehicle_id of
           Some track \<Rightarrow> Inr (cached_plate track, st)
         | None \<Rightarrow> Inr ((None, None), st)))"

text \<open>Lines 352-397: the overlay of one detection. Only the speed line looks at the zone.\<close>

definition draw_detection ::
  "int \<times> int \<Rightarrow> detection \<Rightarrow> int \<Rightarrow> real \<Rightarrow> string option \<Rightarrow> quad option \<Rightarrow> draw_op list" where
  "draw_detection zone d vehicle_id speed lp lp_bbox =
     (let is_overspeed = (speed > speed_limit) in
      [Rectangle (det_bbox d) is_overspeed, IdText vehicle_id] @
      (if fst zone \<le> snd (det_center d) \<and> snd (det_center d) \<le> snd zone
       then [SpeedText speed (speed > speed_limit)] else []) @
      (case lp of
         None \<Rightarrow> []
       | Some plate \<Rightarrow>
           if plate = [] then []
           else PlateText plate #
             (case lp_bbox of
                None \<Rightarrow> []
              | Some q \<Rightarrow>
                  if length q \<ge> 3 then
                    (case det_bbox d of (x1, y1, x2, y2) \<Rightarrow>
                       [PlateBox (x1 + fst (q ! 0), y1 + snd (q ! 0),
                                  x1 + fst (q ! 2), y1 + snd (q ! 2))])
                  else [])))"

text \<open>Lines 402-420: the record of one detection.\<close>

definition make_record ::
  "detector \<Rightarrow> detection \<Rightarrow> int \<Rightarrow> real \<Rightarrow> string option \<Rightarrow> int \<Rightarrow> int \<Rightarrow> detection_record" where
  "make_record st d vehicle_id speed lp frame_number fps =
     \<lparr>rec_frame_number = frame_number,
      rec_vehicle_id = vehicle_id,
      rec_speed = round2 speed,
      rec_license_plate = (if truthy lp then the lp else ''N/A''),
      rec_license_plate_confidence =
        (case find (\<lambda>s. license_plate_confidence s \<noteq> None \<and> license_plate s = lp)
                (rev (track_of st vehicle_id)) of
           None \<Rightarrow> 0
         | Some s \<Rightarrow> the (license_plate_confidence s)),
      rec_is_overspeed = (speed > speed_limit),
      rec_bbox = det_bbox d,
      rec_confidence = round2 (det_confidence d),
      rec_vehicle_class = get_class_name (det_class_id d),
      rec_timestamp = real_of_int frame_number / real_of_int fps\<rparr>"

text \<open>Lines 300-422: the body of the loop over \<open>current_detections\<close>.\<close>

definition process_detection ::
  "engine \<Rightarrow> int \<Rightarrow> int \<times> int \<Rightarrow> (bbox \<Rightarrow> crop) \<Rightarrow> detection \<Rightarrow> run_state \<Rightarrow> py_error + run_state" where
  "process_detection eng fps zone slice d rs =
     (case assign_vehicle_id (tracker rs) (fst (det_center d)) (snd (det_center d))
             (frame_count rs) 50 of
        (vehicle_id, st1) \<Rightarrow>
          (case calculate_speed st1 vehicle_id (det_center d) (frame_count rs) fps of
             Inl e \<Rightarrow> Inl e
           | Inr (speed, st2) \<Rightarrow>
               (case plate_step eng st2 vehicle_id speed (frame_count rs) (slice (det_bbox d)) of
                  Inl e \<Rightarrow> Inl e
                | Inr ((lp, lp_bbox), st3) \<Rightarrow>
                    Inr (rs\<lparr>tracker := st3,
                            drawn := drawn rs @ draw_detection zone d vehicle_id speed lp lp_bbox,
                            detection_data :=
                              (if speed > 0
                               then detection_data rs @
                                      [make_record st3 d vehicle_id speed lp (frame_count rs) fps]
                               else detection_data rs)\<rparr>))))"

fun process_detections ::
  "engine \<Rightarrow> int \<Rightarrow> int \<times> int \<Rightarrow> (bbox \<Rightarrow> crop) \<Rightarrow> detection list \<Rightarrow> run_state \<Rightarrow> py_error + run_state" where
  "process_detections eng fps zone slice [] rs = Inr rs"
| "process_detections eng fps zone slice (d # ds) rs =
     (case process_detection eng fps zone slice d rs of
        Inl e \<Rightarrow> Inl e
      | Inr rs' \<Rightarrow> process_detections eng fps zone slice ds rs')"

text \<open>
  One iteration of the \<open>while\<close> loop, lines 251-422: the counter, the progress percentage
  (\<open>frame_count / total_frames\<close> raises when the container reports no frames), the detector's
  boxes, the aging step, the detections.
\<close>

definition process_frame ::
  "engine \<Rightarrow> int \<Rightarrow> int \<Rightarrow> int \<times> int \<Rightarrow> video_frame \<Rightarrow> run_state \<Rightarrow> py_error + run_state" where
  "process_frame eng fps total_frames zone fr rs =
     (let rs1 = rs\<lparr>frame_count := frame_count rs + 1\<rparr> in
      if total_frames = 0 then Inl ZeroDivisionError
      else
        (let current_detections = List.map_filter to_detection (boxes fr);
             rs2 = rs1\<lparr>tracker := age_tracks (frame_count rs1) (tracker rs1)\<rparr> in
         process_detections eng fps zone (crop_at fr) current_detections rs2))"

fun process_frames ::
  "engine \<Rightarrow> int \<Rightarrow> int \<Rightarrow> int \<times> int \<Rightarrow> video_frame list \<Rightarrow> run_state \<Rightarrow> py_error + run_state" where
  "process_frames eng fps total_frames zone [] rs = Inr rs"
| "process_frames eng fps total_frames zone (fr # frs) rs =
     (case process_frame eng fps total_frames zone fr rs of
        Inl e \<Rightarrow> Inl e
      | Inr rs' \<Rightarrow> process_frames eng fps total_frames zone frs rs')"

definition init_run :: run_state where
  "init_run = \<lparr>tracker = init_detector, detection_data = [], drawn = [], frame_count = 0\<rparr>"

section \<open>Concrete inputs\<close>

text \<open>
  A crop of 40 by 60 pixels and an engine that reads three texts on it: a two-letter text with
  the highest confidence, and two plate-like texts.
\<close>

definition crop_ex :: crop where
  "crop_ex = \<lparr>shape0 = 40, shape1 = 60, channels = 3, pixels = 0\<rparr>"

definition quad_ex :: quad where
  "quad_ex = [(5, 20), (55, 20), (55, 35), (5, 35)]"

definition engine_ex :: engine where
  "engine_ex =
     \<lparr>preprocess = (\<lambda>c. None),
      readtext_enhanced = (\<lambda>c. Inr [(quad_ex, ''AB'', 0.99), (quad_ex, ''KA-01 AB'', 0.6)]),
      readtext_thresh = (\<lambda>c. Inr [(quad_ex, ''MH12 DE'', 0.8)]),
      readtext_crop = (\<lambda>c. Inr [(quad_ex, ''MH12 DE'', 0.7)])\<rparr>"

text \<open>An engine whose every call raises.\<close>

definition engine_raising :: engine where
  "engine_raising =
     \<lparr>preprocess = (\<lambda>c. None),
      readtext_enhanced = (\<lambda>c. Inl EngineError),
      readtext_thresh = (\<lambda>c. Inl EngineError),
      readtext_crop = (\<lambda>c. Inl EngineError)\<rparr>"

text \<open>
  Frames of a 30 fps video whose detector reports cars 20 pixels wide, centred at height 100
  and at the given horizontal positions.
\<close>

definition box_at :: "int \<Rightarrow> box" where
  "box_at x = \<lparr>cls = 2, xyxy = (x - 10, 90, x + 10, 110), conf = 0.9\<rparr>"

definition frame_of :: "int list \<Rightarrow> video_frame" where
  "frame_of xs = \<lparr>boxes = map box_at xs, crop_at = (\<lambda>b. crop_ex)\<rparr>"

text \<open>
  A car seen once, at frame 1, and then not for 31 frames; the tracker after frame 32.
\<close>

definition frames_unseen :: "video_frame list" where
  "frames_unseen = frame_of [100] # replicate 30 (frame_of []) @ [frame_of []]"

definition tracker_unseen :: detector where
  "tracker_unseen =
     \<lparr>vehicle_tracks = [(1, [new_sample (100, 100) 1 30])],
      vehicle_speeds = [], next_vehicle_id = 2,
      inactive_tracks = [(1, (100, 100))], track_last_seen = [],
      pixels_per_meter = 8\<rparr>"

text \<open>
  The same car, seen again at frames 32 and 33, 40 and 80 pixels to the right; the tracker
  after frame 33.
\<close>

definition frames_return :: "video_frame list" where
  "frames_return =
     frame_of [100] # replicate 30 (frame_of []) @ [frame_of [140], frame_of [180]]"

definition tracker_return :: detector where
  "tracker_return =
     \<lparr>vehicle_tracks =
        [(1, [new_sample (100, 100) 1 30, new_sample (140, 100) 32 30,
              new_sample (180, 100) 33 30])],
      vehicle_speeds = [(1, 648 / 31)], next_vehicle_id = 2,
      inactive_tracks = [(1, (100, 100))], track_last_seen = [(1, 33)],
      pixels_per_meter = 8\<rparr>"

text \<open>Two cars 60 pixels apart in frame 1; the tracker after that frame.\<close>

definition tracker_two :: detector where
  "tracker_two =
     \<lparr>vehicle_tracks =
        [(1, [new_sample (100, 100) 1 30]), (2, [new_sample (160, 100) 1 30])],
      vehicle_speeds = [], next_vehicle_id = 3,
      inactive_tracks = [], track_last_seen = [(1, 1), (2, 1)],
      pixels_per_meter = 8\<rparr>"

text \<open>A car that creeps one pixel per frame; the tracker after its first two frames.\<close>

definition tracker_crawl :: detector where
  "tracker_crawl =
     \<lparr>vehicle_tracks = [(1, [new_sample (100, 100) 1 30, new_sample (101, 100) 2 30])],
      vehicle_speeds = [], next_vehicle_id = 2,
      inactive_tracks = [], track_last_seen = [(1, 2)],
      pixels_per_meter = 8\<rparr>"

text \<open>A car that moves ten pixels per frame; the tracker after its first two frames.\<close>

definition tracker_steady :: detector where
  "tracker_steady =
     \<lparr>vehicle_tracks = [(1, [new_sample (100, 100) 1 30, new_sample (110, 100) 2 30])],
      vehicle_speeds = [], next_vehicle_id = 2,
      inactive_tracks = [], track_last_seen = [(1, 2)],
      pixels_per_meter = 8\<rparr>"


section \<open>Evaluation on concrete inputs\<close>

lemma in_map_filter: "y \<in> set (List.map_filter f xs) \<longleftrightarrow> (\<exists>x\<in>set xs. f x = Some y)"
  by (induction xs) (auto simp: map_filter_simps split: option.splits)

lemma calculate_distance_horizontal:
  "calculate_distance (x1, y) (x2, y) = \<bar>real_of_int (x1 - x2)\<bar>"
  by (simp add: calculate_distance_def power2_eq_square)

lemma replicate_30:
  "replicate 30 x =
     [x, x, x, x, x, x, x, x, x, x, x, x, x, x, x, x, x, x, x, x, x, x, x, x, x, x, x, x, x, x]"
  by (simp add: numeral_eq_Suc)

lemma new_sample_sel:
  "position (new_sample p f fps) = p"
  "frame (new_sample p f fps) = f"
  "timestamp (new_sample p f fps) = real_of_int f / real_of_int fps"
  "license_plate (new_sample p f fps) = None"
  "license_plate_bbox (new_sample p f fps) = None"
  "license_plate_confidence (new_sample p f fps) = None"
  by (simp_all add: new_sample_def)

lemmas tracker_eval =
  assign_vehicle_id_def calculate_speed_def age_tracks_def age_one_def track_max_age_def
  keep_recent_def track_of_def interval_speeds_def interval_speed_def mean_def
  calculate_distance_horizontal new_sample_sel Let_def upt_rec map_filter_simps

lemmas run_eval =
  tracker_eval process_frame_def process_detection_def plate_step_def to_detection_def
  vehicle_classes_def box_at_def frame_of_def init_run_def init_detector_def
  cached_plate_def draw_detection_def make_record_def crop_ex_def crop_size_def
  speed_limit_def detect_license_plate_def detect_try_def engine_raising_def round2_def
  get_class_name_def replicate_30


section \<open>Aging\<close>

lemma age_one_vehicle_tracks: "vehicle_tracks (age_one f v st) = vehicle_tracks st"
  by (simp add: age_one_def split: option.splits)

lemma fold_age_one_vehicle_tracks:
  "vehicle_tracks (fold (age_one f) ks st) = vehicle_tracks st"
  by (induction ks arbitrary: st) (simp_all add: age_one_vehicle_tracks)

text \<open>The aging step never changes a history, whatever the frame and the state.\<close>

lemma age_tracks_vehicle_tracks: "vehicle_tracks (age_tracks f st) = vehicle_tracks st"
  by (simp add: age_tracks_def fold_age_one_vehicle_tracks)

text \<open>
  Claim C1, on the run \<open>frames_unseen\<close>. The car of frame 1 is last seen at frame 1. The
  aging step of frame 32 (the first with \<open>32 - 1 > 30\<close>) removes track 1 from
  \<open>track_last_seen\<close> and records its centroid in \<open>inactive_tracks\<close>, but the history of
  track 1 is still in \<open>vehicle_tracks\<close>, which is the dict that \<open>assign_vehicle_id\<close> scans
  as the active tracks: at frame 33 a detection at the same place is bound to track 1 by
  that scan, and track 1 stays in \<open>inactive_tracks\<close> as well.
\<close>

theorem aging_keeps_history_at_frame_32:
  "map_sum id tracker (process_frames engine_raising 30 100 (40, 70) frames_unseen init_run)
     = Inr tracker_unseen \<and>
   map_of (track_last_seen tracker_unseen) 1 = None \<and>
   map_of (inactive_tracks tracker_unseen) 1 = Some (100, 100) \<and>
   track_of tracker_unseen 1 = [new_sample (100, 100) 1 30] \<and>
   assign_vehicle_id (age_tracks 33 tracker_unseen) 100 100 33 50
     = (1, tracker_unseen\<lparr>track_last_seen := [(1, 33)]\<rparr>)"
  by (simp add: run_eval frames_unseen_def tracker_unseen_def)


section \<open>Revival of a dormant track\<close>

text \<open>
  Claim C2, on the run \<open>frames_return\<close> followed by a detection at (100, 100) in frame 34.
  Track 1 is dormant with centroid (100, 100) since frame 32; its history ends at (180, 100),
  80 pixels from the detection, so no history is within the gate and the dormant entry is.
  \<open>assign_vehicle_id\<close> returns 1 and removes 1 from \<open>inactive_tracks\<close>, and the track it
  resumes holds the three samples recorded before: the history is not empty.
\<close>

theorem revival_resumes_old_history:
  "map_sum id tracker (process_frames engine_raising 30 100 (40, 70) frames_return init_run)
     = Inr tracker_return \<and>
   age_tracks 34 tracker_return = tracker_return \<and>
   calculate_distance (100, 100) (position (last (track_of tracker_return 1))) = 80 \<and>
   map_of (inactive_tracks tracker_return) 1 = Some (100, 100) \<and>
   assign_vehicle_id tracker_return 100 100 34 50
     = (1, tracker_return\<lparr>track_last_seen := [(1, 34)], inactive_tracks := []\<rparr>) \<and>
   track_of (snd (assign_vehicle_id tracker_return 100 100 34 50)) 1
     = [new_sample (100, 100) 1 30, new_sample (140, 100) 32 30, new_sample (180, 100) 33 30]"
  by (simp add: run_eval frames_return_def tracker_return_def)


section \<open>Binding a detection to a track\<close>

text \<open>
  Claim C3, on a frame with two cars at (100, 100) and (160, 100) followed by a frame with
  one detection at (135, 100). The detection is bound to track 2, 25 pixels away. Track 1,
  35 pixels away, comes first in the scan and is the running minimum when it is visited:
  its last-seen frame index is set to 2 as well, although nothing is bound to it.
\<close>

theorem binding_refreshes_other_track:
  "map_sum id tracker
     (process_frames engine_raising 30 100 (40, 70) [frame_of [100, 160]] init_run)
     = Inr tracker_two \<and>
   age_tracks 2 tracker_two = tracker_two \<and>
   map_of (track_last_seen tracker_two) 1 = Some 1 \<and>
   assign_vehicle_id tracker_two 135 100 2 50
     = (2, tracker_two\<lparr>track_last_seen := [(1, 2), (2, 2)]\<rparr>)"
  by (simp add: run_eval tracker_two_def)


section \<open>Speed estimator\<close>

lemma track_of_update:
  "vehicle_tracks st' = AList.update k t (vehicle_tracks st) \<Longrightarrow>
   track_of st' k' = (if k' = k then t else track_of st k')"
  by (simp add: track_of_def update_conv')

lemma interval_speed_pos:
  assumes "interval_speed ppm s1 s2 = Some v"
  shows "0 < v \<and> v < 200"
proof -
  define k where "k = calculate_distance (position s1) (position s2) / ppm /
                        (timestamp s2 - timestamp s1) * 3.6 * 1.2"
  have "interval_speed ppm s1 s2 =
          (if timestamp s2 - timestamp s1 > 0 \<and> calculate_distance (position s1) (position s2) > 1
           then if 0 < k \<and> k < 200 then Some k else None else None)"
    by (simp only: interval_speed_def Let_def k_def)
  with assms show ?thesis by (simp only: split: if_splits) auto
qed

lemma interval_speeds_pos: "v \<in> set (interval_speeds ppm t) \<Longrightarrow> 0 < v \<and> v < 200"
  by (auto simp: interval_speeds_def in_map_filter dest: interval_speed_pos)

lemma sum_list_pos_real:
  "xs \<noteq> [] \<Longrightarrow> (\<And>x. x \<in> set xs \<Longrightarrow> 0 < x) \<Longrightarrow> 0 < sum_list (xs :: real list)"
proof (induction xs)
  case Nil
  then show ?case by simp
next
  case (Cons a xs)
  have "0 \<le> sum_list xs"
    using Cons.prems(2) by (intro sum_list_nonneg) (auto intro: less_imp_le)
  moreover have "0 < a" using Cons.prems(2) by simp
  ultimately show ?case by simp
qed

lemma mean_pos: "xs \<noteq> [] \<Longrightarrow> (\<And>x. x \<in> set xs \<Longrightarrow> 0 < x) \<Longrightarrow> 0 < mean xs"
  by (simp add: mean_def sum_list_pos_real)

lemma mean_interval_speeds_pos:
  "interval_speeds ppm t \<noteq> [] \<Longrightarrow> 0 < mean (interval_speeds ppm t)"
  by (rule mean_pos) (auto dest: interval_speeds_pos)

text \<open>The function branch by branch, once \<open>fps\<close> is not 0.\<close>

lemma calculate_speed_unfold:
  assumes "fps \<noteq> 0"
  shows "calculate_speed st vid p f fps =
    (let track = keep_recent (track_of st vid @ [new_sample p f fps]);
         st1 = st\<lparr>vehicle_tracks := AList.update vid track (vehicle_tracks st)\<rparr>;
         speeds = interval_speeds (pixels_per_meter st) track in
     if length track < 3 then Inr (0, st1)
     else if speeds \<noteq> [] then
       (case map_of (vehicle_speeds st) vid of
          Some S \<Rightarrow>
            Inr (0.7 * S + 0.3 * mean speeds,
                 st1\<lparr>vehicle_speeds :=
                       AList.update vid (0.7 * S + 0.3 * mean speeds) (vehicle_speeds st)\<rparr>)
        | None \<Rightarrow>
            Inr (mean speeds,
                 st1\<lparr>vehicle_speeds := AList.update vid (mean speeds) (vehicle_speeds st)\<rparr>))
     else Inr (case map_of (vehicle_speeds st) vid of None \<Rightarrow> 0 | Some S \<Rightarrow> S, st1))"
  using assms by (simp add: calculate_speed_def Let_def split: option.splits)

lemma calculate_speed_fps_0: "calculate_speed st vid p f 0 = Inl ZeroDivisionError"
  by (simp add: calculate_speed_def)

lemma calculate_speed_returns:
  assumes "fps \<noteq> 0"
  shows "\<exists>speed st'. calculate_speed st vid p f fps = Inr (speed, st') \<and>
           vehicle_tracks st' =
             AList.update vid (keep_recent (track_of st vid @ [new_sample p f fps]))
               (vehicle_tracks st) \<and>
           next_vehicle_id st' = next_vehicle_id st \<and>
           inactive_tracks st' = inactive_tracks st \<and>
           track_last_seen st' = track_last_seen st \<and>
           pixels_per_meter st' = pixels_per_meter st"
  unfolding calculate_speed_unfold[OF assms] Let_def
  by (simp split: option.splits)

text \<open>
  Every stored smoothed speed is positive: true of the initial state, and kept by every call.
\<close>

lemma calculate_speed_keeps_speeds_positive:
  assumes "calculate_speed st vid p f fps = Inr (speed, st')"
    and "\<And>k S. map_of (vehicle_speeds st) k = Some S \<Longrightarrow> 0 < S"
    and "map_of (vehicle_speeds st') k = Some S"
  shows "0 < S"
proof -
  from assms(1) have fps: "fps \<noteq> 0" by (auto simp: calculate_speed_def split: if_splits)
  define track where "track = keep_recent (track_of st vid @ [new_sample p f fps])"
  define speeds where "speeds = interval_speeds (pixels_per_meter st) track"
  note u = calculate_speed_unfold[OF fps, of st vid p f, unfolded Let_def,
      folded track_def, folded speeds_def]
  have mp: "speeds \<noteq> [] \<Longrightarrow> 0 < mean speeds"
    unfolding speeds_def by (rule mean_interval_speeds_pos)
  from assms(1) u consider
      (same) "vehicle_speeds st' = vehicle_speeds st"
    | (first) "speeds \<noteq> []" "vehicle_speeds st' = AList.update vid (mean speeds) (vehicle_speeds st)"
    | (smooth) S0 where "speeds \<noteq> []" "map_of (vehicle_speeds st) vid = Some S0"
        "vehicle_speeds st' = AList.update vid (0.7 * S0 + 0.3 * mean speeds) (vehicle_speeds st)"
    by (auto split: if_splits option.splits)
  then show ?thesis
  proof cases
    case same
    with assms(2,3) show ?thesis by simp
  next
    case first
    with assms(2,3) mp show ?thesis by (auto simp: update_conv' split: if_splits)
  next
    case smooth
    from smooth(2) assms(2) have "0 < S0" by blast
    with smooth assms(2,3) mp show ?thesis
      by (auto simp: update_conv' split: if_splits intro: add_pos_pos)
  qed
qed

text \<open>
  Claim C4, as amended. With a frame rate other than 0 the call returns. While the history,
  after the new sample is appended, has fewer than 3 samples the speed is 0 and no smoothed
  speed is written. From the third sample on the speed is positive as soon as one of the
  most recent pairs of consecutive samples (at most five pairs) passes the filter of the
  estimator, that is has a positive elapsed time, a displacement of more than 1 pixel and a
  scaled speed strictly between 0 and 200, and the smoothed speed stored for the track, if
  there is one, is positive.
\<close>

theorem calculate_speed_zero_then_positive:
  assumes "fps \<noteq> 0"
  shows "\<exists>speed st'. calculate_speed st vid p f fps = Inr (speed, st') \<and>
     track_of st' vid = keep_recent (track_of st vid @ [new_sample p f fps]) \<and>
     (length (track_of st' vid) < 3 \<longrightarrow> speed = 0 \<and> vehicle_speeds st' = vehicle_speeds st) \<and>
     (length (track_of st' vid) \<ge> 3 \<and>
      interval_speeds (pixels_per_meter st) (track_of st' vid) \<noteq> [] \<and>
      (\<forall>S. map_of (vehicle_speeds st) vid = Some S \<longrightarrow> 0 < S) \<longrightarrow> 0 < speed)"
proof -
  define track where "track = keep_recent (track_of st vid @ [new_sample p f fps])"
  define speeds where "speeds = interval_speeds (pixels_per_meter st) track"
  note u = calculate_speed_unfold[OF assms, of st vid p f, unfolded Let_def,
      folded track_def, folded speeds_def]
  show ?thesis
  proof (cases "length track < 3")
    case True
    with u show ?thesis by (simp add: track_of_update track_def)
  next
    case long: False
    show ?thesis
    proof (cases "speeds = []")
      case True
      with u long show ?thesis
        by (simp add: track_of_update track_def[symmetric] speeds_def[symmetric])
    next
      case ne: False
      then have mp: "0 < mean speeds" unfolding speeds_def by (rule mean_interval_speeds_pos)
      show ?thesis
      proof (cases "map_of (vehicle_speeds st) vid")
        case None
        with u long ne mp show ?thesis
          by (simp add: track_of_update track_def[symmetric] speeds_def[symmetric])
      next
        case (Some S)
        with u long ne mp show ?thesis
          by (auto simp add: track_of_update track_def[symmetric] speeds_def[symmetric]
                   intro: add_pos_pos)
      qed
    qed
  qed
qed

theorem calculate_speed_zero_then_positive_witness:
  "(\<exists>st'. calculate_speed init_detector 1 (100, 100) 1 30 = Inr (0, st')) \<and>
   (\<exists>speed st'. calculate_speed tracker_return 1 (190, 100) 34 30 = Inr (speed, st') \<and> 0 < speed)"
proof -
  have f: "(30::int) \<noteq> 0" by simp
  from calculate_speed_zero_then_positive[OF f, of init_detector 1 "(100, 100)" 1]
  have a: "\<exists>st'. calculate_speed init_detector 1 (100, 100) 1 30 = Inr (0, st')"
    by (auto simp: init_detector_def track_of_def keep_recent_def)
  from calculate_speed_zero_then_positive[OF f, of tracker_return 1 "(190, 100)" 34]
  obtain speed st' where
    r: "calculate_speed tracker_return 1 (190, 100) 34 30 = Inr (speed, st')"
    and t: "track_of st' 1 = keep_recent (track_of tracker_return 1 @ [new_sample (190, 100) 34 30])"
    and p: "length (track_of st' 1) \<ge> 3 \<and>
      interval_speeds (pixels_per_meter tracker_return) (track_of st' 1) \<noteq> [] \<and>
      (\<forall>S. map_of (vehicle_speeds tracker_return) 1 = Some S \<longrightarrow> 0 < S) \<longrightarrow> 0 < speed"
    by blast
  have "length (track_of st' 1) \<ge> 3 \<and>
      interval_speeds (pixels_per_meter tracker_return) (track_of st' 1) \<noteq> [] \<and>
      (\<forall>S. map_of (vehicle_speeds tracker_return) 1 = Some S \<longrightarrow> 0 < S)"
    unfolding t by (simp add: tracker_eval tracker_return_def)
  with p have "0 < speed" by blast
  with r a show ?thesis by blast
qed

text \<open>
  Claim C4 as stated fails on a car that creeps one pixel per frame: its third sample comes
  with two displacements of one pixel, each over a thirtieth of a second, and the speed
  returned is 0, because a displacement must exceed one pixel to count.
\<close>

theorem third_sample_one_pixel_counterexample:
  "map_sum id tracker
     (process_frames engine_raising 30 100 (40, 70) [frame_of [100], frame_of [101]] init_run)
     = Inr tracker_crawl \<and>
   calculate_speed tracker_crawl 1 (102, 100) 3 30
     = Inr (0, tracker_crawl\<lparr>vehicle_tracks :=
                 [(1, [new_sample (100, 100) 1 30, new_sample (101, 100) 2 30,
                       new_sample (102, 100) 3 30])]\<rparr>) \<and>
   0 < calculate_distance (100, 100) (101, 100) \<and>
   0 < calculate_distance (101, 100) (102, 100) \<and>
   timestamp (new_sample (100, 100) 1 30) < timestamp (new_sample (101, 100) 2 30) \<and>
   timestamp (new_sample (101, 100) 2 30) < timestamp (new_sample (102, 100) 3 30)"
  by (simp add: run_eval tracker_crawl_def)

text \<open>
  Claim C5. Let the history after the new sample is appended have at least 3 samples, so that
  the instantaneous speeds are computed, and let \<open>speeds\<close> be those that pass the filter.
  If there is one and the track has no smoothed speed, the call returns their average and
  stores it; if there is one and the smoothed speed is \<open>S\<close>, it returns and stores 0.3 times
  the average plus 0.7 times \<open>S\<close>; if there is none, it returns the smoothed speed, or 0
  when the track has none, and leaves the smoothed speeds as they are.
\<close>

theorem calculate_speed_smoothing:
  assumes "fps \<noteq> 0"
    and "track = keep_recent (track_of st vid @ [new_sample p f fps])"
    and "3 \<le> length track"
    and "speeds = interval_speeds (pixels_per_meter st) track"
  shows "(speeds \<noteq> [] \<and> map_of (vehicle_speeds st) vid = None \<longrightarrow>
            (\<exists>st'. calculate_speed st vid p f fps = Inr (mean speeds, st') \<and>
                   map_of (vehicle_speeds st') vid = Some (mean speeds))) \<and>
         (\<forall>S. speeds \<noteq> [] \<and> map_of (vehicle_speeds st) vid = Some S \<longrightarrow>
            (\<exists>st'. calculate_speed st vid p f fps = Inr (0.3 * mean speeds + 0.7 * S, st') \<and>
                   map_of (vehicle_speeds st') vid = Some (0.3 * mean speeds + 0.7 * S))) \<and>
         (speeds = [] \<longrightarrow>
            (\<exists>st'. calculate_speed st vid p f fps =
                     Inr (case map_of (vehicle_speeds st) vid of None \<Rightarrow> 0 | Some S \<Rightarrow> S, st') \<and>
                   vehicle_speeds st' = vehicle_speeds st))"
proof -
  note u = calculate_speed_unfold[OF assms(1), of st vid p f, unfolded Let_def,
      folded assms(2), folded assms(4)]
  from assms(3) have long: "\<not> length track < 3" by simp
  show ?thesis
    using u long by (auto simp: update_conv' algebra_simps)
qed

theorem calculate_speed_smoothing_witness:
  "(\<exists>st'. calculate_speed tracker_steady 1 (120, 100) 3 30 = Inr (162, st') \<and>
          map_of (vehicle_speeds st') 1 = Some 162) \<and>
   (\<exists>st'. calculate_speed tracker_return 1 (190, 100) 34 30
             = Inr (0.3 * (2835 / 31) + 0.7 * (648 / 31), st') \<and>
          map_of (vehicle_speeds st') 1 = Some (0.3 * (2835 / 31) + 0.7 * (648 / 31))) \<and>
   (\<exists>st'. calculate_speed tracker_crawl 1 (102, 100) 3 30 = Inr (0, st') \<and>
          vehicle_speeds st' = vehicle_speeds tracker_crawl)"
proof -
  have f: "(30::int) \<noteq> 0" by simp
  have a: "\<exists>st'. calculate_speed tracker_steady 1 (120, 100) 3 30 = Inr (162, st') \<and>
          map_of (vehicle_speeds st') 1 = Some 162"
    using calculate_speed_smoothing[OF f refl _ refl, of tracker_steady 1 "(120, 100)" 3]
    by (simp add: tracker_eval tracker_steady_def)
  have b: "\<exists>st'. calculate_speed tracker_return 1 (190, 100) 34 30
             = Inr (0.3 * (2835 / 31) + 0.7 * (648 / 31), st') \<and>
          map_of (vehicle_speeds st') 1 = Some (0.3 * (2835 / 31) + 0.7 * (648 / 31))"
    using calculate_speed_smoothing[OF f refl _ refl, of tracker_return 1 "(190, 100)" 34]
    by (simp add: tracker_eval tracker_return_def)
  have c: "\<exists>st'. calculate_speed tracker_crawl 1 (102, 100) 3 30 = Inr (0, st') \<and>
          vehicle_speeds st' = vehicle_speeds tracker_crawl"
    using calculate_speed_smoothing[OF f refl _ refl, of tracker_crawl 1 "(102, 100)" 3]
    by (simp add: tracker_eval tracker_crawl_def)
  from a b c show ?thesis by blast
qed

section \<open>The per-detection step always returns\<close>

lemma select_plate_is_Pair: "\<exists>lp b. select_plate rs = Pair lp b"
  by (simp add: select_plate_def split: list.splits)

lemma detect_try_crop:
  assumes "0 < crop_size c"
  shows "(\<exists>e. detect_try eng (Some c) = Inl e) \<or> (\<exists>lp b. detect_try eng (Some c) = Inr (Pair lp b))"
proof -
  from assms have "shape0 c \<noteq> 0" "shape1 c \<noteq> 0" "crop_size c \<noteq> 0"
    by (auto simp: crop_size_def)
  then show ?thesis
    using select_plate_is_Pair
    by (auto simp: detect_try_def split: option.splits sum.splits)
qed

lemma detect_license_plate_crop:
  assumes "0 < crop_size c"
  shows "\<exists>lp b. detect_license_plate eng (Some c) = Pair lp b"
  using detect_try_crop[OF assms, of eng]
  by (auto simp: detect_license_plate_def)

lemma detect_license_plate_raised:
  "detect_try eng vc = Inl e \<Longrightarrow> detect_license_plate eng vc = Pair None None"
  by (simp add: detect_license_plate_def)

lemma plate_step_returns:
  "\<exists>lp lp_bbox st'. plate_step eng st vid speed f c = Inr ((lp, lp_bbox), st') \<and>
     next_vehicle_id st' = next_vehicle_id st \<and> inactive_tracks st' = inactive_tracks st \<and>
     track_last_seen st' = track_last_seen st \<and> vehicle_speeds st' = vehicle_speeds st \<and>
     pixels_per_meter st' = pixels_per_meter st"
proof (cases "f mod (if speed < 40 then 5 else 10) = 0 \<and> crop_size c > 0")
  case True
  then have "0 < crop_size c" by simp
  from detect_license_plate_crop[OF this, of eng] obtain lp b where
    "detect_license_plate eng (Some c) = Pair lp b" by blast
  with True show ?thesis
    by (auto simp: plate_step_def Let_def split: option.splits)
next
  case False
  then show ?thesis
    by (cases "cached_plate (track_of st vid)")
       (auto simp: plate_step_def Let_def split: option.splits prod.splits)
qed

lemma plate_step_raised:
  assumes "f mod (if speed < 40 then 5 else 10) = 0" "0 < crop_size c"
    and "detect_try eng (Some c) = Inl e"
  shows "plate_step eng st vid speed f c = Inr ((None, None), st)"
  using assms by (simp add: plate_step_def detect_license_plate_def Let_def)

lemma process_detection_unfold:
  assumes "fps \<noteq> 0"
  shows "\<exists>vid st1 speed st2 lp lp_bbox st3.
     assign_vehicle_id (tracker rs) (fst (det_center d)) (snd (det_center d)) (frame_count rs) 50
       = (vid, st1) \<and>
     calculate_speed st1 vid (det_center d) (frame_count rs) fps = Inr (speed, st2) \<and>
     plate_step eng st2 vid speed (frame_count rs) (slice (det_bbox d)) = Inr ((lp, lp_bbox), st3) \<and>
     (\<forall>zone. process_detection eng fps zone slice d rs =
        Inr (rs\<lparr>tracker := st3,
                drawn := drawn rs @ draw_detection zone d vid speed lp lp_bbox,
                detection_data :=
                  (if speed > 0
                   then detection_data rs @ [make_record st3 d vid speed lp (frame_count rs) fps]
                   else detection_data rs)\<rparr>))"
proof -
  obtain vid st1 where a: "assign_vehicle_id (tracker rs) (fst (det_center d)) (snd (det_center d)) (frame_count rs) 50
       = (vid, st1)" by (cases "assign_vehicle_id (tracker rs) (fst (det_center d)) (snd (det_center d)) (frame_count rs) 50") auto
  from calculate_speed_returns[OF assms, of st1 vid "det_center d" "frame_count rs"]
  obtain speed st2 where c: "calculate_speed st1 vid (det_center d) (frame_count rs) fps = Inr (speed, st2)" by blast
  from plate_step_returns[of eng st2 vid speed "frame_count rs" "slice (det_bbox d)"]
  obtain lp lp_bbox st3 where p: "plate_step eng st2 vid speed (frame_count rs) (slice (det_bbox d)) = Inr ((lp, lp_bbox), st3)" by blast
  from a c p show ?thesis by (simp add: process_detection_def)
qed

lemma process_detection_returns:
  "fps \<noteq> 0 \<Longrightarrow> \<exists>rs'. process_detection eng fps zone slice d rs = Inr rs'"
  using process_detection_unfold[of fps rs d eng slice] by blast

lemma process_detections_returns:
  "fps \<noteq> 0 \<Longrightarrow> \<exists>rs'. process_detections eng fps zone slice ds rs = Inr rs'"
proof (induction ds arbitrary: rs)
  case Nil
  then show ?case by simp
next
  case (Cons d ds)
  from process_detection_returns[OF Cons.prems, of eng zone slice d rs]
  obtain rs1 where "process_detection eng fps zone slice d rs = Inr rs1" by blast
  with Cons.IH[OF Cons.prems, of rs1] show ?case by simp
qed

lemma process_frame_returns:
  "fps \<noteq> 0 \<Longrightarrow> total_frames \<noteq> 0 \<Longrightarrow> \<exists>rs'. process_frame eng fps total_frames zone fr rs = Inr rs'"
  by (simp add: process_frame_def Let_def process_detections_returns)

lemma process_frames_returns:
  "fps \<noteq> 0 \<Longrightarrow> total_frames \<noteq> 0 \<Longrightarrow> \<exists>rs'. process_frames eng fps total_frames zone frs rs = Inr rs'"
proof (induction frs arbitrary: rs)
  case Nil
  then show ?case by simp
next
  case (Cons fr frs)
  from process_frame_returns[OF Cons.prems, of eng zone fr rs]
  obtain rs1 where "process_frame eng fps total_frames zone fr rs = Inr rs1" by blast
  with Cons.IH[OF Cons.prems, of rs1] show ?case by simp
qed

section \<open>Plate selection\<close>

lemma sort_key_head:
  assumes "sort_key f xs = p # ps"
  shows "p \<in> set xs \<and> (\<forall>q\<in>set xs. f p \<le> f q)"
proof -
  have s: "sorted (map f (sort_key f xs))" by (rule sorted_sort_key)
  have e: "set (sort_key f xs) = set xs" by (rule set_sort)
  from assms e have "p \<in> set xs" by (metis list.set_intros(1))
  moreover have "\<forall>q\<in>set xs. f p \<le> f q"
  proof
    fix q assume "q \<in> set xs"
    with e assms have "q \<in> set (p # ps)" by simp
    with s assms show "f p \<le> f q" by auto
  qed
  ultimately show ?thesis by simp
qed

lemma candidate_Some:
  "candidate (b, tx, c) = Some y \<longleftrightarrow>
     (y = (clean_text tx, c, b) \<and> c > 0.4 \<and> plate_like (clean_text tx))"
  by (auto simp: candidate_def Let_def)

lemma in_collect_plates:
  "y \<in> set (collect_plates rs) \<longleftrightarrow>
     (\<exists>b tx c. (b, tx, c) \<in> set rs \<and> y = (clean_text tx, c, b) \<and> c > 0.4 \<and>
        plate_like (clean_text tx))"
proof -
  have "y \<in> set (collect_plates rs) \<longleftrightarrow> (\<exists>r\<in>set rs. candidate r = Some y)"
    by (simp add: collect_plates_def in_map_filter)
  also have "\<dots> \<longleftrightarrow> (\<exists>b tx c. (b, tx, c) \<in> set rs \<and> candidate (b, tx, c) = Some y)"
    by auto
  finally show ?thesis by (simp only: candidate_Some)
qed

lemma select_plate_Some:
  assumes "select_plate rs = Pair (Some plate) b"
  shows "\<exists>bb tx c. (bb, tx, c) \<in> set rs \<and> plate = clean_text tx \<and> b = Some bb \<and> c > 0.4 \<and>
           plate_like plate \<and>
           (\<forall>r\<in>set rs. snd (snd r) > 0.4 \<and> plate_like (clean_text (fst (snd r)))
                \<longrightarrow> snd (snd r) \<le> c)"
proof -
  from assms obtain p ps where sp: "sort_plates (collect_plates rs) = p # ps"
    and pl: "plate = fst p" and bx: "b = Some (snd (snd p))"
    by (auto simp: select_plate_def split: list.splits)
  from sort_key_head[OF sp[unfolded sort_plates_def]]
  have pin: "p \<in> set (collect_plates rs)"
    and mx: "\<forall>q\<in>set (collect_plates rs). fst (snd q) \<le> fst (snd p)" by auto
  from pin obtain bb tx c where r: "(bb, tx, c) \<in> set rs" "c > 0.4" "plate_like (clean_text tx)"
    and p: "p = (clean_text tx, c, bb)" unfolding in_collect_plates by auto
  have "\<forall>r\<in>set rs. snd (snd r) > 0.4 \<and> plate_like (clean_text (fst (snd r)))
          \<longrightarrow> snd (snd r) \<le> c"
  proof (intro ballI impI)
    fix r assume a: "r \<in> set rs" "snd (snd r) > 0.4 \<and> plate_like (clean_text (fst (snd r)))"
    obtain bb' tx' c' where r': "r = (bb', tx', c')" by (cases r) auto
    with a have "(clean_text tx', c', bb') \<in> set (collect_plates rs)"
      unfolding in_collect_plates by auto
    with mx p r' show "snd (snd r) \<le> c" by fastforce
  qed
  with r p pl bx show ?thesis by auto
qed

lemma detect_license_plate_Some:
  assumes "detect_license_plate eng vc = Pair (Some plate) b"
  shows "\<exists>c r1 r2. vc = Some c \<and> readtext_enhanced eng c = Inr r1 \<and>
           readtext_thresh eng c = Inr r2 \<and> select_plate (r1 @ r2) = Pair (Some plate) b"
  using assms
  by (auto simp: detect_license_plate_def detect_try_def
           split: option.splits sum.splits if_splits)

text \<open>
  Claim C8. Whenever \<open>detect_license_plate\<close> returns a plate, the plate has at least 4
  characters, a digit and a letter, whatever confidences the engine reported; it is the
  alphanumeric normalisation of one of the engine's readings (of the enhanced or of the
  thresholded image) that passed the confidence threshold 0.4 and the plausibility filter,
  returned with that reading's quad, and no reading that passed both has a higher
  confidence.
\<close>

theorem detect_license_plate_selects_best_survivor:
  assumes "detect_license_plate eng vc = Pair (Some plate) b"
  shows "length plate \<ge> 4 \<and> list_ex isdigit plate \<and> list_ex isalpha plate \<and>
         (\<exists>c r1 r2 bb tx cf.
            vc = Some c \<and> readtext_enhanced eng c = Inr r1 \<and> readtext_thresh eng c = Inr r2 \<and>
            (bb, tx, cf) \<in> set (r1 @ r2) \<and> plate = clean_text tx \<and> b = Some bb \<and> cf > 0.4 \<and>
            (\<forall>r\<in>set (r1 @ r2).
               snd (snd r) > 0.4 \<and> plate_like (clean_text (fst (snd r))) \<longrightarrow> snd (snd r) \<le> cf))"
proof -
  from detect_license_plate_Some[OF assms] obtain c r1 r2 where
    d: "vc = Some c" "readtext_enhanced eng c = Inr r1" "readtext_thresh eng c = Inr r2"
    and s: "select_plate (r1 @ r2) = Pair (Some plate) b" by blast
  from select_plate_Some[OF s] obtain bb tx cf where
    r: "(bb, tx, cf) \<in> set (r1 @ r2)" "plate = clean_text tx" "b = Some bb" "cf > 0.4"
       "plate_like plate"
    and m: "\<forall>r\<in>set (r1 @ r2). snd (snd r) > 0.4 \<and> plate_like (clean_text (fst (snd r)))
              \<longrightarrow> snd (snd r) \<le> cf" by blast
  from r(5) have "length plate \<ge> 4 \<and> list_ex isdigit plate \<and> list_ex isalpha plate"
    by (simp add: plate_like_def)
  moreover from d r m have "\<exists>c r1 r2 bb tx cf.
            vc = Some c \<and> readtext_enhanced eng c = Inr r1 \<and> readtext_thresh eng c = Inr r2 \<and>
            (bb, tx, cf) \<in> set (r1 @ r2) \<and> plate = clean_text tx \<and> b = Some bb \<and> cf > 0.4 \<and>
            (\<forall>r\<in>set (r1 @ r2).
               snd (snd r) > 0.4 \<and> plate_like (clean_text (fst (snd r))) \<longrightarrow> snd (snd r) \<le> cf)"
    by blast
  ultimately show ?thesis by blast
qed

lemma detect_license_plate_ex:
  "detect_license_plate engine_ex (Some crop_ex) = Pair (Some ''MH12DE'') (Some quad_ex)"
  by (simp add: detect_license_plate_def detect_try_def engine_ex_def crop_ex_def crop_size_def
        select_plate_def sort_plates_def collect_plates_def map_filter_simps candidate_def
        clean_text_def plate_like_def isalnum_def isalpha_def isdigit_def Let_def)

theorem detect_license_plate_selects_best_survivor_witness:
  "detect_license_plate engine_ex (Some crop_ex) = Pair (Some ''MH12DE'') (Some quad_ex) \<and>
   length ''MH12DE'' \<ge> 4 \<and> list_ex isdigit ''MH12DE'' \<and> list_ex isalpha ''MH12DE''"
  using detect_license_plate_selects_best_survivor [OF detect_license_plate_ex]
        detect_license_plate_ex
  by blast


section \<open>Failures of the recognition engine\<close>

text \<open>
  Claim C9. \<open>process_video\<close> calls \<open>detect_license_plate\<close> only on a crop of size greater
  than 0. On such a crop the function returns a pair, whatever the engine does; if anything
  raises inside its \<open>try\<close> (the preprocessing or either reading) the pair is
  \<open>(None, None)\<close>, and on a frame where recognition is due the plate step then returns no
  plate and leaves the tracker as it was. So, with a frame rate other than 0, the
  per-detection step returns for every engine, and with a frame count other than 0 so does
  the whole run: no behaviour of the engine aborts it.
\<close>

theorem recognition_failure_is_absorbed:
  "(0 < crop_size c \<longrightarrow>
      (\<exists>lp b. detect_license_plate eng (Some c) = Pair lp b) \<and>
      (\<forall>e. detect_try eng (Some c) = Inl e \<longrightarrow>
           detect_license_plate eng (Some c) = Pair None None \<and>
           (f mod (if speed < 40 then 5 else 10) = 0 \<longrightarrow>
              plate_step eng st vid speed f c = Inr ((None, None), st)))) \<and>
   (fps \<noteq> 0 \<longrightarrow> (\<exists>rs'. process_detection eng fps zone slice d rs = Inr rs')) \<and>
   (fps \<noteq> 0 \<and> total_frames \<noteq> 0 \<longrightarrow>
      (\<exists>rs'. process_frames eng fps total_frames zone frs rs = Inr rs'))"
proof (intro conjI impI allI)
  assume "0 < crop_size c"
  then show "\<exists>lp b. detect_license_plate eng (Some c) = Pair lp b"
    by (rule detect_license_plate_crop)
next
  fix e assume "detect_try eng (Some c) = Inl e"
  then show "detect_license_plate eng (Some c) = Pair None None"
    by (rule detect_license_plate_raised)
next
  fix e
  assume "0 < crop_size c" "detect_try eng (Some c) = Inl e"
    "f mod (if speed < 40 then 5 else 10) = 0"
  then show "plate_step eng st vid speed f c = Inr ((None, None), st)"
    by (simp only: plate_step_raised)
next
  assume "fps \<noteq> 0"
  then show "\<exists>rs'. process_detection eng fps zone slice d rs = Inr rs'"
    by (rule process_detection_returns)
next
  assume "fps \<noteq> 0 \<and> total_frames \<noteq> 0"
  then show "\<exists>rs'. process_frames eng fps total_frames zone frs rs = Inr rs'"
    by (simp add: process_frames_returns)
qed

theorem recognition_failure_is_absorbed_witness:
  "detect_license_plate engine_raising (Some crop_ex) = Pair None None \<and>
   plate_step engine_raising tracker_return 1 20 35 crop_ex = Inr ((None, None), tracker_return) \<and>
   (\<exists>rs'. process_frames engine_raising 30 100 (40, 70) frames_return init_run = Inr rs')"
proof -
  have c: "0 < crop_size crop_ex" by (simp add: crop_size_def crop_ex_def)
  have r: "detect_try engine_raising (Some crop_ex) = Inl EngineError"
    by (simp add: detect_try_def engine_raising_def crop_size_def crop_ex_def)
  from recognition_failure_is_absorbed[where c = crop_ex and eng = engine_raising and f = 35
      and speed = 20 and st = tracker_return and vid = 1 and fps = 30 and zone = "(40, 70)"
      and total_frames = 100 and frs = frames_return and rs = init_run
      and slice = "\<lambda>b. crop_ex" and d = "the (to_detection (box_at 100))"] c r
  show ?thesis by simp
qed

end
